theory Spec2Isabelle
  imports Main "HOL-Library.Word"
begin

section \<open>The descriptor layer: \<^verbatim>\<open>library/src/rocsparselt_auxiliary.cpp\<close>\<close>

text \<open>
  The C entry points return a \<^verbatim>\<open>rocsparse_status\<close> and write through pointer arguments.
  A pointer argument is an \<open>option\<close>: \<open>None\<close> is \<^verbatim>\<open>nullptr\<close>, \<open>Some x\<close> points at \<open>x\<close>.
  A function of the model returns its status together with the new contents of every
  object it may write. \<^verbatim>\<open>log_trace\<close> only logs and is left out.

  The enumerations are declared in headers that are not part of these sources
  (\<^verbatim>\<open>rocsparselt-types.h\<close>); each datatype lists the enumerators this file names. The
  matrix type, the value type and the compute type end with a constructor that stands
  for any other value the C enumeration can carry. The attribute selector has none: it
  indexes the fixed array \<^verbatim>\<open>attributes\<close> without a check, so a value outside the
  enumerators is undefined behaviour in the source.
\<close>

datatype rocsparse_status =
    rocsparse_status_success
  | rocsparse_status_invalid_handle
  | rocsparse_status_not_implemented
  | rocsparse_status_invalid_pointer
  | rocsparse_status_invalid_value
  | rocsparse_status_internal_error

datatype rocsparselt_matrix_type =
    rocsparselt_matrix_type_dense
  | rocsparselt_matrix_type_structured
  | rocsparselt_matrix_type_other nat

datatype rocsparselt_datatype =
    rocsparselt_datatype_bf16_r
  | rocsparselt_datatype_bf8_r
  | rocsparselt_datatype_f16_r
  | rocsparselt_datatype_f8_r
  | rocsparselt_datatype_i8_r
  | rocsparselt_datatype_other nat

datatype rocsparselt_compute_type =
    rocsparselt_compute_f32
  | rocsparselt_compute_i32
  | rocsparselt_compute_other nat

datatype rocsparselt_mat_descr_attribute =
    rocsparselt_mat_num_batches
  | rocsparselt_mat_batch_stride

text \<open>Enumerations that are only stored, never inspected, are carried as their C integer.\<close>

type_synonym rocsparse_operation = int
type_synonym rocsparse_order = int
type_synonym rocsparselt_sparsity = int

type_synonym size_t = "64 word"
type_synonym byte = "8 word"

text \<open>
  An attribute slot: \<^verbatim>\<open>void* data\<close> with the heap block it points at (its bytes), and
  \<^verbatim>\<open>size_t data_size\<close>.
\<close>

record rocsparselt_attribute =
  data :: "byte list option"
  data_size :: size_t

record rocsparselt_mat_descr_rec =
  m_type :: rocsparselt_matrix_type
  m :: "64 word"
  n :: "64 word"
  ld :: "64 word"
  alignment :: "32 word"
  type :: rocsparselt_datatype
  order :: rocsparse_order
  sparsity :: rocsparselt_sparsity
  attributes :: "rocsparselt_mat_descr_attribute \<Rightarrow> rocsparselt_attribute"

record rocsparselt_matmul_descr_rec =
  op_A :: rocsparse_operation
  op_B :: rocsparse_operation
  matrix_A :: rocsparselt_mat_descr_rec
  matrix_B :: rocsparselt_mat_descr_rec
  matrix_C :: rocsparselt_mat_descr_rec
  matrix_D :: rocsparselt_mat_descr_rec
  compute_type :: rocsparselt_compute_type

text \<open>
  \<^verbatim>\<open>memcpy(dst, src, count)\<close>: the first \<open>count\<close> bytes of \<open>dst\<close> become those of \<open>src\<close>,
  the rest of \<open>dst\<close> stays. \<^verbatim>\<open>malloc(size)\<close> gives a block of \<open>size\<close> bytes; its
  contents are indeterminate in C and are overwritten in full before any read here.
\<close>

definition memcpy :: "byte list \<Rightarrow> byte list \<Rightarrow> nat \<Rightarrow> byte list" where
  "memcpy dst src cnt = take cnt src @ drop cnt dst"

definition malloc :: "size_t \<Rightarrow> byte list" where
  "malloc sz = replicate (unat sz) 0"

text \<open>
  \<^verbatim>\<open>rocsparselt_mat_descr_set_attribute\<close> (lines 225-267). The parameter \<^verbatim>\<open>data\<close> is
  written \<open>data'\<close>, since \<open>data\<close> is the field of the attribute slot.
\<close>

definition rocsparselt_mat_descr_set_attribute ::
  "'h option \<Rightarrow> rocsparselt_mat_descr_rec option \<Rightarrow> rocsparselt_mat_descr_attribute \<Rightarrow>
   byte list option \<Rightarrow> size_t \<Rightarrow> rocsparse_status \<times> rocsparselt_mat_descr_rec option" where
  "rocsparselt_mat_descr_set_attribute handle matDescr matAttribute data' dataSize =
    (if handle = None then (rocsparse_status_invalid_handle, matDescr)
     else case (data', matDescr) of
       (Some src, Some d) \<Rightarrow>
         if dataSize \<le> 0 then (rocsparse_status_invalid_value, matDescr)
         else
           let a0 = attributes d matAttribute;
               a1 = (if data a0 \<noteq> None \<and> data_size a0 > 0 then a0\<lparr>data := None\<rparr> else a0);
               a2 = (if data a1 = None then a1\<lparr>data := Some (malloc dataSize)\<rparr> else a1);
               a3 = a2\<lparr>data_size := dataSize\<rparr>;
               a4 = a3\<lparr>data := map_option (\<lambda>blk. memcpy blk src (unat dataSize)) (data a3)\<rparr>
           in (rocsparse_status_success,
               Some (d\<lparr>attributes := (attributes d)(matAttribute := a4)\<rparr>))
     | _ \<Rightarrow> (rocsparse_status_invalid_pointer, matDescr))"

text \<open>
  \<^verbatim>\<open>rocsparselt_mat_descr_get_attribute\<close> (lines 273-307). The second component is the
  caller's buffer after the call. A slot that was never set holds \<^verbatim>\<open>nullptr\<close>; the copy
  then reads no byte.
\<close>

definition rocsparselt_mat_descr_get_attribute ::
  "'h option \<Rightarrow> rocsparselt_mat_descr_rec option \<Rightarrow> rocsparselt_mat_descr_attribute \<Rightarrow>
   byte list option \<Rightarrow> size_t \<Rightarrow> rocsparse_status \<times> byte list option" where
  "rocsparselt_mat_descr_get_attribute handle matDescr matAttribute data' dataSize =
    (if handle = None then (rocsparse_status_invalid_handle, data')
     else case (data', matDescr) of
       (Some buf, Some d) \<Rightarrow>
         if dataSize \<le> 0 then (rocsparse_status_invalid_value, data')
         else
           (rocsparse_status_success,
            Some (memcpy buf
                    (case data (attributes d matAttribute) of None \<Rightarrow> [] | Some blk \<Rightarrow> blk)
                    (unat (min dataSize (data_size (attributes d matAttribute))))))
     | _ \<Rightarrow> (rocsparse_status_invalid_pointer, data'))"

text \<open>
  What \<^verbatim>\<open>set_attribute\<close> maintains for a slot: the block behind \<^verbatim>\<open>data\<close> has
  \<^verbatim>\<open>data_size\<close> bytes, and a null \<^verbatim>\<open>data\<close> goes with size 0.
\<close>

definition attribute_ok :: "rocsparselt_attribute \<Rightarrow> bool" where
  "attribute_ok a =
    (case data a of None \<Rightarrow> data_size a = 0 | Some blk \<Rightarrow> length blk = unat (data_size a))"

text \<open>
  \<^verbatim>\<open>rocsparselt_matmul_descr_init\<close> (lines 312-377). The \<^verbatim>\<open>switch\<close> over the value type
  of \<open>matA\<close> has no default case: \<open>switch_compute\<close> gives the status it throws, if any.
\<close>

fun switch_compute ::
  "rocsparselt_datatype \<Rightarrow> rocsparselt_compute_type \<Rightarrow> rocsparse_status option" where
  "switch_compute rocsparselt_datatype_bf16_r c =
     (if c \<noteq> rocsparselt_compute_f32 then Some rocsparse_status_invalid_value else None)"
| "switch_compute rocsparselt_datatype_bf8_r c =
     (if c \<noteq> rocsparselt_compute_f32 then Some rocsparse_status_invalid_value else None)"
| "switch_compute rocsparselt_datatype_f16_r c =
     (if c \<noteq> rocsparselt_compute_f32 then Some rocsparse_status_invalid_value else None)"
| "switch_compute rocsparselt_datatype_f8_r c =
     (if c \<noteq> rocsparselt_compute_f32 then Some rocsparse_status_invalid_value else None)"
| "switch_compute rocsparselt_datatype_i8_r c =
     (if c \<noteq> rocsparselt_compute_i32 then Some rocsparse_status_invalid_value else None)"
| "switch_compute (rocsparselt_datatype_other k) c = None"

text \<open>The \<^verbatim>\<open>try\<close> block: \<open>Inl\<close> is the status thrown, \<open>Inr\<close> the descriptor built.\<close>

definition matmul_descr_init_try ::
  "rocsparse_operation \<Rightarrow> rocsparse_operation \<Rightarrow>
   rocsparselt_mat_descr_rec \<Rightarrow> rocsparselt_mat_descr_rec \<Rightarrow>
   rocsparselt_mat_descr_rec \<Rightarrow> rocsparselt_mat_descr_rec \<Rightarrow>
   rocsparselt_compute_type \<Rightarrow> rocsparse_status + rocsparselt_matmul_descr_rec" where
  "matmul_descr_init_try opA opB matA matB matC matD computeType =
    (if type matA \<noteq> type matB \<or> type matA \<noteq> type matC \<or> type matA \<noteq> type matD
     then Inl rocsparse_status_invalid_value
     else case switch_compute (type matA) computeType of
       Some status \<Rightarrow> Inl status
     | None \<Rightarrow>
         Inr \<lparr>op_A = opA, op_B = opB, matrix_A = matA, matrix_B = matB,
              matrix_C = matC, matrix_D = matD, compute_type = computeType\<rparr>)"

text \<open>
  \<open>matmulDescr\<close> is a pointer to the caller's descriptor pointer: \<open>None\<close> when it is null,
  \<open>Some p\<close> when it points at a variable holding \<open>p\<close>. The second component of the result is
  that argument after the call: \<open>Some None\<close> is a variable set to \<^verbatim>\<open>nullptr\<close>,
  \<open>Some (Some md)\<close> one that points at the new descriptor.
\<close>

definition rocsparselt_matmul_descr_init ::
  "'h option \<Rightarrow> rocsparselt_matmul_descr_rec option option \<Rightarrow>
   rocsparse_operation \<Rightarrow> rocsparse_operation \<Rightarrow>
   rocsparselt_mat_descr_rec option \<Rightarrow> rocsparselt_mat_descr_rec option \<Rightarrow>
   rocsparselt_mat_descr_rec option \<Rightarrow> rocsparselt_mat_descr_rec option \<Rightarrow>
   rocsparselt_compute_type \<Rightarrow>
   rocsparse_status \<times> rocsparselt_matmul_descr_rec option option" where
  "rocsparselt_matmul_descr_init handle matmulDescr opA opB matA matB matC matD computeType =
    (if handle = None then (rocsparse_status_invalid_handle, matmulDescr)
     else case (matmulDescr, matA, matB, matC, matD) of
       (Some old, Some a, Some b, Some c, Some d) \<Rightarrow>
         if m_type a \<noteq> rocsparselt_matrix_type_structured
            \<or> m_type b \<noteq> rocsparselt_matrix_type_dense
         then (rocsparse_status_not_implemented, matmulDescr)
         else (case matmul_descr_init_try opA opB a b c d computeType of
                 Inl status \<Rightarrow> (status, Some None)
               | Inr md \<Rightarrow> (rocsparse_status_success, Some (Some md)))
     | _ \<Rightarrow> (rocsparse_status_invalid_pointer, matmulDescr))"

text \<open>Descriptors used to run the entry points on concrete inputs.\<close>

definition example_descr ::
  "rocsparselt_matrix_type \<Rightarrow> rocsparselt_datatype \<Rightarrow> rocsparselt_mat_descr_rec" where
  "example_descr mt vt =
    \<lparr>m_type = mt, m = 8, n = 8, ld = 8, alignment = 16, type = vt, order = 1, sparsity = 0,
     attributes = (\<lambda>_. \<lparr>data = None, data_size = 0\<rparr>)\<rparr>"

definition example_with_batches :: rocsparselt_mat_descr_rec where
  "example_with_batches =
    (case snd (rocsparselt_mat_descr_set_attribute (Some ())
                 (Some (example_descr rocsparselt_matrix_type_dense rocsparselt_datatype_f16_r))
                 rocsparselt_mat_num_batches (Some [1, 2, 3, 4]) 4) of
       Some d \<Rightarrow> d
     | None \<Rightarrow> example_descr rocsparselt_matrix_type_dense rocsparselt_datatype_f16_r)"

section \<open>The test harness: \<^verbatim>\<open>clients/include/rocsparselt_test.hpp\<close>\<close>

subsection \<open>\<^verbatim>\<open>RUN_TEST_ON_THREADS_STREAMS\<close> (lines 184-218)\<close>

text \<open>
  The macro expands inside a Google Test body (the \<^verbatim>\<open>GOOGLE_TEST\<close> branch of the header),
  so \<^verbatim>\<open>CHECK_HIP_ERROR\<close> is \<^verbatim>\<open>ASSERT_EQ(ERROR, hipSuccess)\<close>: on a mismatch it records a
  fatal failure and returns from the test. What one expansion does is the list of its
  events, in order: the records it hands to Google Test and the calls it makes on the
  stream pool and the two dispatchers.
\<close>

datatype hipError_t =
    hipSuccess
  | hipErrorInvalidDevice
  | hipErrorOutOfMemory
  | hipError_other nat

datatype succeed_message = TOO_MANY_DEVICES_STRING | HMM_NOT_SUPPORTED

datatype test_event =
    SUCCEED succeed_message
  | ASSERT_EQ_failure hipError_t
  | g_stream_pool_reset size_t size_t
  | LAUNCH_TEST_ON_THREADS size_t size_t size_t
  | LAUNCH_TEST_ON_STREAMS size_t size_t

text \<open>
  The fields of the parameter record the macro reads, as the \<^verbatim>\<open>size_t\<close> locals it copies
  them into.
\<close>

record Arguments =
  threads :: size_t
  streams :: size_t
  devices :: size_t
  HMM :: bool

text \<open>
  The HIP runtime is outside the repository. \<open>query\<close> stands for
  \<^verbatim>\<open>hipDeviceGetAttribute(&flag, hipDeviceAttributeManagedMemory, id)\<close>: for a device id it
  gives the error code and the value of \<^verbatim>\<open>flag\<close> after the call (\<^verbatim>\<open>flag\<close> is 0 before it).
  The device id parameter is an \<^verbatim>\<open>int\<close>; \<open>to_device_id\<close> is the conversion of the
  \<^verbatim>\<open>size_t\<close> argument the macro passes.
\<close>

definition to_device_id :: "size_t \<Rightarrow> int" where
  "to_device_id x = sint (ucast x :: 32 word)"

text \<open>
  The loop \<^verbatim>\<open>for(int i = 0; i < devices; i++)\<close>. Its body passes \<^verbatim>\<open>devices\<close>, not \<^verbatim>\<open>i\<close>,
  as the device id. \<open>None\<close>: the loop ran to its end; \<open>Some e\<close>: it returned from the test
  with event \<open>e\<close>.
\<close>

function HMM_loop :: "(int \<Rightarrow> hipError_t \<times> int) \<Rightarrow> size_t \<Rightarrow> nat \<Rightarrow> test_event option" where
  "HMM_loop query devs i =
    (if i < unat devs then
       (case query (to_device_id devs) of
          (error, flag) \<Rightarrow>
            if error \<noteq> hipSuccess then Some (ASSERT_EQ_failure error)
            else if flag = 0 then Some (SUCCEED HMM_NOT_SUPPORTED)
            else HMM_loop query devs (i + 1))
     else None)"
  by pat_completeness auto
termination
  by (relation "measure (\<lambda>(query, devs, i). unat devs - i)") auto

declare HMM_loop.simps [simp del]

text \<open>
  \<open>availDevices\<close> is the \<^verbatim>\<open>int\<close> that \<^verbatim>\<open>hipGetDeviceCount\<close> leaves in the variable; the
  comparison with the \<^verbatim>\<open>size_t\<close> \<^verbatim>\<open>devices\<close> converts it to \<^verbatim>\<open>size_t\<close>.
\<close>

definition RUN_TEST_ON_THREADS_STREAMS ::
  "Arguments \<Rightarrow> int \<Rightarrow> (int \<Rightarrow> hipError_t \<times> int) \<Rightarrow> test_event list" where
  "RUN_TEST_ON_THREADS_STREAMS arg availDevices query =
    (if devices arg > word_of_int availDevices then [SUCCEED TOO_MANY_DEVICES_STRING]
     else
       (case (if HMM arg then HMM_loop query (devices arg) 0 else None) of
          Some e \<Rightarrow> [e]
        | None \<Rightarrow>
            g_stream_pool_reset (devices arg) (streams arg) #
            (if threads arg \<noteq> 0
             then [LAUNCH_TEST_ON_THREADS (threads arg) (streams arg) (devices arg)]
             else [LAUNCH_TEST_ON_STREAMS (streams arg) (devices arg)])))"

text \<open>
  Two machines. On the first, device 0 has no managed memory and device 1 has it. On the
  second there is one device, without managed memory. Both runtimes answer a device id
  that does not exist with \<^verbatim>\<open>hipErrorInvalidDevice\<close>.
\<close>

definition two_devices :: "int \<Rightarrow> hipError_t \<times> int" where
  "two_devices dev =
    (if dev = 0 then (hipSuccess, 0) else if dev = 1 then (hipSuccess, 1)
     else (hipErrorInvalidDevice, 0))"

definition one_device :: "int \<Rightarrow> hipError_t \<times> int" where
  "one_device dev = (if dev = 0 then (hipSuccess, 0) else (hipErrorInvalidDevice, 0))"

subsection \<open>\<^verbatim>\<open>stream_pool\<close> (lines 237-255)\<close>















subsection \<open>\<^verbatim>\<open>RocSparseLt_TestName\<close> (lines 265-307)\<close>

text \<open>
  The builder holds a stream \<^verbatim>\<open>m_str\<close>: the constructor writes the name and an underscore,
  \<^verbatim>\<open>operator<<\<close> appends the text of an object.
\<close>

definition RocSparseLt_TestName :: "string \<Rightarrow> string" where
  "RocSparseLt_TestName name = name @ ''_''"

definition stream_out :: "string \<Rightarrow> string \<Rightarrow> string" where
  "stream_out m_str obj = m_str @ obj"

text \<open>
  The table of a template instantiation is a \<^verbatim>\<open>std::unordered_map<std::string, size_t>\<close>.
\<close>

type_synonym name_table = "string \<rightharpoonup> size_t"

text \<open>\<^verbatim>\<open>std::to_string\<close> of a count: its decimal digits.\<close>

definition digit_char :: "nat \<Rightarrow> char" where
  "digit_char d = char_of (48 + d)"

function to_string :: "nat \<Rightarrow> string" where
  "to_string k =
    (if k < 10 then [digit_char k] else to_string (k div 10) @ [digit_char (k mod 10)])"
  by pat_completeness auto
termination
  by (relation "measure id") auto

declare to_string.simps [simp del]

text \<open>
  Modelled from the spec: \<^verbatim>\<open>RocSparseLt_TestName_to_string\<close> is declared at line 284 and
  defined in a file that is not part of these sources. The spec (4.5): look up the
  occurrence count of the fully assembled string in the table; if absent, insert it with
  count 1 and return the string unchanged; if present, increment the count and return the
  string with an underscore and the count appended.
\<close>

definition RocSparseLt_TestName_to_string :: "name_table \<Rightarrow> string \<Rightarrow> string \<times> name_table" where
  "RocSparseLt_TestName_to_string table str =
    (case table str of
       None \<Rightarrow> (str, table(str \<mapsto> 1))
     | Some c \<Rightarrow> (str @ ''_'' @ to_string (unat (c + 1)), table(str \<mapsto> c + 1)))"

text \<open>
  \<^verbatim>\<open>operator std::string() &&\<close> (lines 279-287). The \<^verbatim>\<open>static\<close> table belongs to the
  instantiation of the class template; \<open>tables\<close> gives the table of every instantiation
  (\<open>inst\<close> is the template argument), each allocated empty on first use. The conversion
  passes the table of its own instantiation and \<^verbatim>\<open>m_str\<close> to the helper.
\<close>

definition operator_std_string ::
  "'inst \<Rightarrow> string \<Rightarrow> ('inst \<Rightarrow> name_table) \<Rightarrow> string \<times> ('inst \<Rightarrow> name_table)" where
  "operator_std_string inst m_str tables =
    (case RocSparseLt_TestName_to_string (tables inst) m_str of
       (name, table') \<Rightarrow> (name, tables(inst := table')))"

text \<open>
  A run of conversions, in order: each request names the instantiation and the stream
  contents; the result is the list of names returned and the tables at the end.
\<close>

fun name_requests ::
  "('inst \<times> string) list \<Rightarrow> ('inst \<Rightarrow> name_table) \<Rightarrow> string list \<times> ('inst \<Rightarrow> name_table)" where
  "name_requests [] tables = ([], tables)"
| "name_requests ((inst, m_str) # rest) tables =
    (case operator_std_string inst m_str tables of
       (name, tables') \<Rightarrow>
         (case name_requests rest tables' of (names, tables'') \<Rightarrow> (name # names, tables'')))"

text \<open>The value of a string of decimal digits, and the tables that count a run of requests.\<close>

definition decimal_value :: "string \<Rightarrow> nat" where
  "decimal_value s = foldl (\<lambda>acc c. 10 * acc + (of_char c - 48)) 0 s"

definition counts_match :: "('inst \<Rightarrow> name_table) \<Rightarrow> ('inst \<times> string) list \<Rightarrow> bool" where
  "counts_match tables seen \<longleftrightarrow>
    (\<forall>inst str. tables inst str =
       (if count_list seen (inst, str) = 0 then None
        else Some (of_nat (count_list seen (inst, str)))))"

text \<open>Four requests: three from instantiation 0 and one from instantiation 1, same text.\<close>

definition example_requests :: "(nat \<times> string) list" where
  "example_requests =
    [(0, stream_out (RocSparseLt_TestName ''gemm'') ''f16''),
     (0, stream_out (RocSparseLt_TestName ''gemm'') ''f16''),
     (1, stream_out (RocSparseLt_TestName ''gemm'') ''f16''),
     (0, stream_out (RocSparseLt_TestName ''gemm'') ''f16'')]"

section \<open>Properties of the descriptor layer\<close>

lemma length_memcpy:
  "cnt \<le> length src \<Longrightarrow> cnt \<le> length dst \<Longrightarrow> length (memcpy dst src cnt) = length dst"
  by (simp add: memcpy_def)

lemma take_memcpy:
  "cnt \<le> length src \<Longrightarrow> take cnt (memcpy dst src cnt) = take cnt src"
  by (simp add: memcpy_def)

lemma drop_memcpy:
  "cnt \<le> length src \<Longrightarrow> drop cnt (memcpy dst src cnt) = drop cnt dst"
  by (simp add: memcpy_def)

lemma unat_min_size: "unat (min (a::size_t) b) = min (unat a) (unat b)"
  by (simp add: min_def word_le_nat_alt)

lemma stored_block_length:
  "attribute_ok a \<Longrightarrow>
   length (case data a of None \<Rightarrow> [] | Some blk \<Rightarrow> blk) = unat (data_size a)"
  by (simp add: attribute_ok_def split: option.splits)

lemma example_with_batches_slot:
  "attributes example_with_batches rocsparselt_mat_num_batches
     = \<lparr>data = Some [1, 2, 3, 4], data_size = 4\<rparr>"
  by (simp add: example_with_batches_def rocsparselt_mat_descr_set_attribute_def
      example_descr_def Let_def malloc_def memcpy_def)

text \<open>A successful \<^verbatim>\<open>set_attribute\<close> leaves the slot with a block of \<^verbatim>\<open>data_size\<close> bytes.\<close>

lemma set_attribute_ok:
  fixes handle :: "'h option"
  assumes "rocsparselt_mat_descr_set_attribute handle (Some d) matAttribute (Some src) dataSize
             = (rocsparse_status_success, Some d')"
    and "attribute_ok (attributes d matAttribute)"
    and "unat dataSize \<le> length src"
  shows "attribute_ok (attributes d' matAttribute)"
  using assms
  by (auto simp: rocsparselt_mat_descr_set_attribute_def attribute_ok_def Let_def memcpy_def
        malloc_def word_gt_0 split: if_splits option.splits)

text \<open>
  \<^bold>\<open>C10.\<close> With a valid handle, descriptor and data pointer and \<open>dataSize > 0\<close>,
  \<^verbatim>\<open>rocsparselt_mat_descr_get_attribute\<close> returns \<^verbatim>\<open>rocsparse_status_success\<close> and its
  \<^verbatim>\<open>memcpy\<close> copies exactly \<open>min dataSize data_size\<close> bytes from the stored attribute into
  the caller's buffer. Where the buffer has the \<open>dataSize\<close> bytes the caller announces and
  the slot is as \<^verbatim>\<open>set_attribute\<close> leaves it, this means: the first \<open>min dataSize data_size\<close>
  bytes of the buffer are those of the stored block, and the rest of the buffer and its
  length are unchanged. A buffer smaller than the stored attribute gets the first
  \<open>dataSize\<close> bytes, and the status is success all the same.
\<close>

theorem get_attribute_copies_min:
  fixes handle :: "'h option"
  assumes "handle = Some h" and "matDescr = Some d" and "data' = Some buf" and "0 < dataSize"
  shows "\<exists>buf'. rocsparselt_mat_descr_get_attribute handle matDescr matAttribute data' dataSize
            = (rocsparse_status_success, Some buf')
         \<and> buf' = memcpy buf
                    (case data (attributes d matAttribute) of None \<Rightarrow> [] | Some blk \<Rightarrow> blk)
                    (unat (min dataSize (data_size (attributes d matAttribute))))
         \<and> (unat dataSize \<le> length buf \<and> attribute_ok (attributes d matAttribute) \<longrightarrow>
              length buf' = length buf
              \<and> take (unat (min dataSize (data_size (attributes d matAttribute)))) buf'
                = take (unat (min dataSize (data_size (attributes d matAttribute))))
                    (case data (attributes d matAttribute) of None \<Rightarrow> [] | Some blk \<Rightarrow> blk)
              \<and> drop (unat (min dataSize (data_size (attributes d matAttribute)))) buf'
                = drop (unat (min dataSize (data_size (attributes d matAttribute)))) buf
              \<and> (dataSize < data_size (attributes d matAttribute) \<longrightarrow>
                   take (unat dataSize) buf'
                   = take (unat dataSize)
                       (case data (attributes d matAttribute) of
                          None \<Rightarrow> [] | Some blk \<Rightarrow> blk)))"
proof -
  let ?a = "attributes d matAttribute"
  let ?stored = "case data ?a of None \<Rightarrow> [] | Some blk \<Rightarrow> blk"
  let ?k = "unat (min dataSize (data_size ?a))"
  have nz: "\<not> dataSize \<le> 0" using assms(4) by (simp add: word_gt_0)
  have run: "rocsparselt_mat_descr_get_attribute handle matDescr matAttribute data' dataSize
      = (rocsparse_status_success, Some (memcpy buf ?stored ?k))"
    using assms(1-3) nz
    by (simp add: rocsparselt_mat_descr_get_attribute_def)
  have bytes: "length (memcpy buf ?stored ?k) = length buf
      \<and> take ?k (memcpy buf ?stored ?k) = take ?k ?stored
      \<and> drop ?k (memcpy buf ?stored ?k) = drop ?k buf
      \<and> (dataSize < data_size ?a \<longrightarrow>
           take (unat dataSize) (memcpy buf ?stored ?k) = take (unat dataSize) ?stored)"
    if big: "unat dataSize \<le> length buf" and ok: "attribute_ok ?a"
  proof -
    have len: "length ?stored = unat (data_size ?a)"
      using ok by (rule stored_block_length)
    have k_src: "?k \<le> length ?stored" using len by (simp add: unat_min_size)
    have k_dst: "?k \<le> length buf" using big by (simp add: unat_min_size)
    have small: "dataSize < data_size ?a \<Longrightarrow> ?k = unat dataSize"
      by (simp add: unat_min_size word_less_nat_alt)
    have trunc: "dataSize < data_size ?a \<longrightarrow>
        take (unat dataSize) (memcpy buf ?stored ?k) = take (unat dataSize) ?stored"
      using take_memcpy [OF k_src, of buf] small by auto
    show ?thesis
      using length_memcpy [OF k_src k_dst] take_memcpy [OF k_src] drop_memcpy [OF k_src] trunc
      by simp
  qed
  show ?thesis
    using run bytes by blast
qed

theorem get_attribute_copies_min_witness:
  "\<exists>buf'. rocsparselt_mat_descr_get_attribute (Some ()) (Some example_with_batches)
            rocsparselt_mat_num_batches (Some [9, 9, 9]) 2 = (rocsparse_status_success, Some buf')
      \<and> length buf' = 3 \<and> take 2 buf' = [1, 2] \<and> drop 2 buf' = [9]
      \<and> (2 :: size_t) < data_size (attributes example_with_batches rocsparselt_mat_num_batches)"
  using get_attribute_copies_min [of "Some ()" "()" "Some example_with_batches"
          example_with_batches "Some [9, 9, 9]" "[9, 9, 9]" 2 rocsparselt_mat_num_batches]
  by (auto simp add: example_with_batches_slot attribute_ok_def numeral_3_eq_3)

text \<open>The \<^verbatim>\<open>switch\<close> throws exactly for the two mismatches of value type and compute type.\<close>

lemma switch_compute_eq:
  "switch_compute t ct =
    (if (t \<in> {rocsparselt_datatype_bf16_r, rocsparselt_datatype_bf8_r,
                rocsparselt_datatype_f16_r, rocsparselt_datatype_f8_r}
         \<and> ct \<noteq> rocsparselt_compute_f32)
        \<or> (t = rocsparselt_datatype_i8_r \<and> ct \<noteq> rocsparselt_compute_i32)
     then Some rocsparse_status_invalid_value else None)"
  by (cases t) auto

text \<open>
  \<^bold>\<open>C9.\<close> With a non-null handle and non-null descriptor pointers,
  \<^verbatim>\<open>rocsparselt_matmul_descr_init\<close> returns \<^verbatim>\<open>rocsparse_status_not_implemented\<close> if \<open>matA\<close> is
  not structured or \<open>matB\<close> is not dense; otherwise \<^verbatim>\<open>rocsparse_status_invalid_value\<close> if the
  value types of \<open>matA\<close>, \<open>matB\<close>, \<open>matC\<close>, \<open>matD\<close> are not all equal, or the compute type is
  not \<^verbatim>\<open>rocsparselt_compute_f32\<close> for bf16, bf8, f16 or f8 inputs, or not
  \<^verbatim>\<open>rocsparselt_compute_i32\<close> for i8 inputs; and only when all these checks pass it builds
  the matmul descriptor from its arguments, stores it through \<open>matmulDescr\<close> and returns
  \<^verbatim>\<open>rocsparse_status_success\<close>.
\<close>

theorem matmul_descr_init_checks:
  fixes handle :: "'h option"
  assumes "handle = Some h" and "matmulDescr = Some old"
    and "matA = Some a" and "matB = Some b" and "matC = Some c" and "matD = Some d"
  shows "rocsparselt_matmul_descr_init handle matmulDescr opA opB matA matB matC matD computeType =
    (if m_type a \<noteq> rocsparselt_matrix_type_structured \<or> m_type b \<noteq> rocsparselt_matrix_type_dense
     then (rocsparse_status_not_implemented, Some old)
     else if \<not> (type a = type b \<and> type b = type c \<and> type c = type d)
          \<or> (type a \<in> {rocsparselt_datatype_bf16_r, rocsparselt_datatype_bf8_r,
                         rocsparselt_datatype_f16_r, rocsparselt_datatype_f8_r}
               \<and> computeType \<noteq> rocsparselt_compute_f32)
          \<or> (type a = rocsparselt_datatype_i8_r \<and> computeType \<noteq> rocsparselt_compute_i32)
     then (rocsparse_status_invalid_value, Some None)
     else (rocsparse_status_success,
           Some (Some \<lparr>op_A = opA, op_B = opB, matrix_A = a, matrix_B = b,
                       matrix_C = c, matrix_D = d, compute_type = computeType\<rparr>)))"
proof (cases "m_type a \<noteq> rocsparselt_matrix_type_structured \<or> m_type b \<noteq> rocsparselt_matrix_type_dense")
  case True
  then show ?thesis
    using assms by (auto simp add: rocsparselt_matmul_descr_init_def)
next
  case False
  show ?thesis
  proof (cases "type a = type b \<and> type b = type c \<and> type c = type d")
    case neq: False
    then have "matmul_descr_init_try opA opB a b c d computeType = Inl rocsparse_status_invalid_value"
      by (auto simp add: matmul_descr_init_try_def)
    then show ?thesis
      using assms False neq by (simp add: rocsparselt_matmul_descr_init_def)
  next
    case eq: True
    then have tr: "matmul_descr_init_try opA opB a b c d computeType =
       (case switch_compute (type a) computeType of
         Some status \<Rightarrow> Inl status
       | None \<Rightarrow> Inr \<lparr>op_A = opA, op_B = opB, matrix_A = a, matrix_B = b,
              matrix_C = c, matrix_D = d, compute_type = computeType\<rparr>)"
      by (simp add: matmul_descr_init_try_def)
    show ?thesis
      using assms False eq tr
      by (simp add: rocsparselt_matmul_descr_init_def switch_compute_eq)
  qed
qed

theorem matmul_descr_init_checks_witness:
  "rocsparselt_matmul_descr_init (Some ()) (Some None) 0 0
      (Some (example_descr rocsparselt_matrix_type_structured rocsparselt_datatype_f16_r))
      (Some (example_descr rocsparselt_matrix_type_dense rocsparselt_datatype_f16_r))
      (Some (example_descr rocsparselt_matrix_type_dense rocsparselt_datatype_f16_r))
      (Some (example_descr rocsparselt_matrix_type_dense rocsparselt_datatype_f16_r))
      rocsparselt_compute_f32
    = (rocsparse_status_success,
       Some (Some \<lparr>op_A = 0, op_B = 0,
          matrix_A = example_descr rocsparselt_matrix_type_structured rocsparselt_datatype_f16_r,
          matrix_B = example_descr rocsparselt_matrix_type_dense rocsparselt_datatype_f16_r,
          matrix_C = example_descr rocsparselt_matrix_type_dense rocsparselt_datatype_f16_r,
          matrix_D = example_descr rocsparselt_matrix_type_dense rocsparselt_datatype_f16_r,
          compute_type = rocsparselt_compute_f32\<rparr>))
   \<and> fst (rocsparselt_matmul_descr_init (Some ()) (Some None) 0 0
      (Some (example_descr rocsparselt_matrix_type_structured rocsparselt_datatype_i8_r))
      (Some (example_descr rocsparselt_matrix_type_dense rocsparselt_datatype_i8_r))
      (Some (example_descr rocsparselt_matrix_type_dense rocsparselt_datatype_i8_r))
      (Some (example_descr rocsparselt_matrix_type_dense rocsparselt_datatype_i8_r))
      rocsparselt_compute_f32) = rocsparse_status_invalid_value
   \<and> fst (rocsparselt_matmul_descr_init (Some ()) (Some None) 0 0
      (Some (example_descr rocsparselt_matrix_type_structured rocsparselt_datatype_f16_r))
      (Some (example_descr rocsparselt_matrix_type_dense rocsparselt_datatype_f16_r))
      (Some (example_descr rocsparselt_matrix_type_dense rocsparselt_datatype_bf16_r))
      (Some (example_descr rocsparselt_matrix_type_dense rocsparselt_datatype_f16_r))
      rocsparselt_compute_f32) = rocsparse_status_invalid_value
   \<and> fst (rocsparselt_matmul_descr_init (Some ()) (Some None) 0 0
      (Some (example_descr rocsparselt_matrix_type_dense rocsparselt_datatype_f16_r))
      (Some (example_descr rocsparselt_matrix_type_dense rocsparselt_datatype_f16_r))
      (Some (example_descr rocsparselt_matrix_type_dense rocsparselt_datatype_f16_r))
      (Some (example_descr rocsparselt_matrix_type_dense rocsparselt_datatype_f16_r))
      rocsparselt_compute_f32) = rocsparse_status_not_implemented"
  using
    matmul_descr_init_checks [of "Some ()" "()" "Some None" None
      "Some (example_descr rocsparselt_matrix_type_structured rocsparselt_datatype_f16_r)" _
      "Some (example_descr rocsparselt_matrix_type_dense rocsparselt_datatype_f16_r)" _
      "Some (example_descr rocsparselt_matrix_type_dense rocsparselt_datatype_f16_r)" _
      "Some (example_descr rocsparselt_matrix_type_dense rocsparselt_datatype_f16_r)" _
      0 0 rocsparselt_compute_f32]
    matmul_descr_init_checks [of "Some ()" "()" "Some None" None
      "Some (example_descr rocsparselt_matrix_type_structured rocsparselt_datatype_i8_r)" _
      "Some (example_descr rocsparselt_matrix_type_dense rocsparselt_datatype_i8_r)" _
      "Some (example_descr rocsparselt_matrix_type_dense rocsparselt_datatype_i8_r)" _
      "Some (example_descr rocsparselt_matrix_type_dense rocsparselt_datatype_i8_r)" _
      0 0 rocsparselt_compute_f32]
    matmul_descr_init_checks [of "Some ()" "()" "Some None" None
      "Some (example_descr rocsparselt_matrix_type_structured rocsparselt_datatype_f16_r)" _
      "Some (example_descr rocsparselt_matrix_type_dense rocsparselt_datatype_f16_r)" _
      "Some (example_descr rocsparselt_matrix_type_dense rocsparselt_datatype_bf16_r)" _
      "Some (example_descr rocsparselt_matrix_type_dense rocsparselt_datatype_f16_r)" _
      0 0 rocsparselt_compute_f32]
    matmul_descr_init_checks [of "Some ()" "()" "Some None" None
      "Some (example_descr rocsparselt_matrix_type_dense rocsparselt_datatype_f16_r)" _
      "Some (example_descr rocsparselt_matrix_type_dense rocsparselt_datatype_f16_r)" _
      "Some (example_descr rocsparselt_matrix_type_dense rocsparselt_datatype_f16_r)" _
      "Some (example_descr rocsparselt_matrix_type_dense rocsparselt_datatype_f16_r)" _
      0 0 rocsparselt_compute_f32]
  by (simp add: example_descr_def)

section \<open>Properties of the test harness\<close>

text \<open>What the macro does by its own tests: too many devices end the test at once.\<close>

lemma too_many_devices_skips:
  "devices arg > word_of_int availDevices \<Longrightarrow>
   RUN_TEST_ON_THREADS_STREAMS arg availDevices query = [SUCCEED TOO_MANY_DEVICES_STRING]"
  by (simp add: RUN_TEST_ON_THREADS_STREAMS_def)

text \<open>When the runtime answers the query the macro makes with a clear flag, the test ends too.\<close>

lemma HMM_flag_clear_skips:
  assumes "\<not> devices arg > word_of_int availDevices" and "HMM arg" and "devices arg \<noteq> 0"
    and "query (to_device_id (devices arg)) = (hipSuccess, 0)"
  shows "RUN_TEST_ON_THREADS_STREAMS arg availDevices query = [SUCCEED HMM_NOT_SUPPORTED]"
proof -
  have "0 < unat (devices arg)"
    using assms(3) by (simp add: unat_gt_0)
  then have "HMM_loop query (devices arg) 0 = Some (SUCCEED HMM_NOT_SUPPORTED)"
    using assms(4) by (simp add: HMM_loop.simps)
  then show ?thesis
    using assms(1,2) by (simp add: RUN_TEST_ON_THREADS_STREAMS_def)
qed

text \<open>
  \<^bold>\<open>C7.\<close> The claim: if the requested device count exceeds the available devices, or the
  HMM flag is set and managed memory is found unsupported when queried for each of the
  requested devices, the test ends in a skipped outcome that is not a failure, before any
  dispatch: neither the stream pool's reset nor a dispatcher is called.

  The loop of the macro asks the runtime about device id \<^verbatim>\<open>devices\<close> in every iteration,
  never about device \<^verbatim>\<open>i\<close>. Two runs with \<open>devices = 1\<close> and \<open>HMM\<close> set, where the one requested
  device (id 0) answers the query with success and a clear flag: on the machine with two
  devices the macro reads the flag of device 1, resets the stream pool and dispatches; on
  the machine with one device it asks about a device that does not exist and ends the test
  with a failed assertion.
\<close>

theorem HMM_check_queries_wrong_device:
  "devices \<lparr>threads = 0, streams = 1, devices = 1, HMM = True\<rparr> \<le> word_of_int 2
   \<and> two_devices 0 = (hipSuccess, 0)
   \<and> RUN_TEST_ON_THREADS_STREAMS
        \<lparr>threads = 0, streams = 1, devices = 1, HMM = True\<rparr> 2 two_devices
      = [g_stream_pool_reset 1 1, LAUNCH_TEST_ON_STREAMS 1 1]
   \<and> one_device 0 = (hipSuccess, 0)
   \<and> RUN_TEST_ON_THREADS_STREAMS
        \<lparr>threads = 0, streams = 1, devices = 1, HMM = True\<rparr> 1 one_device
      = [ASSERT_EQ_failure hipErrorInvalidDevice]"
  by (simp add: RUN_TEST_ON_THREADS_STREAMS_def HMM_loop.simps to_device_id_def
      two_devices_def one_device_def)

subsection \<open>The test name builder\<close>

lemma decimal_value_snoc: "decimal_value (s @ [c]) = 10 * decimal_value s + (of_char c - 48)"
  by (simp add: decimal_value_def)

lemma digit_value: "d < 10 \<Longrightarrow> of_char (digit_char d) - 48 = d"
  by (simp add: digit_char_def)

lemma decimal_value_to_string: "decimal_value (to_string k) = k"
proof (induction k rule: to_string.induct)
  case (1 k)
  show ?case
  proof (cases "k < 10")
    case True
    then show ?thesis
      using decimal_value_snoc [of "[]" "digit_char k"]
      by (simp add: to_string.simps [of k] digit_value decimal_value_def)
  next
    case False
    then have "decimal_value (to_string (k div 10)) = k div 10" using 1 by simp
    with False show ?thesis
      by (simp add: to_string.simps [of k] decimal_value_snoc digit_value)
  qed
qed

lemma to_string_inject: "to_string a = to_string b \<Longrightarrow> a = b"
  by (metis decimal_value_to_string)


lemma counts_match_empty: "counts_match (\<lambda>_. Map.empty) []"
  by (simp add: counts_match_def)

lemma count_list_le_length: "count_list xs x \<le> length xs"
  by (induction xs) auto

lemma unat_succ_count:
  assumes "c + 1 < 2 ^ 64"
  shows "unat ((of_nat c :: size_t) + 1) = c + 1"
proof -
  have "unat (word_of_nat (Suc c) :: size_t) = Suc c mod 2 ^ LENGTH(64)"
    by (rule unat_of_nat)
  also have "\<dots> = Suc c"
    using assms by simp
  finally have "unat (word_of_nat (Suc c) :: size_t) = Suc c" .
  moreover have "(of_nat c :: size_t) + 1 = word_of_nat (Suc c)"
    by simp
  ultimately show ?thesis by (metis add.commute Suc_eq_plus1)
qed

lemma name_requests_Cons:
  "name_requests ((inst, str) # rest) tables =
    (fst (operator_std_string inst str tables)
       # fst (name_requests rest (snd (operator_std_string inst str tables))),
     snd (name_requests rest (snd (operator_std_string inst str tables))))"
  by (simp split: prod.splits)

lemma operator_std_string_step:
  assumes "counts_match tables seen" and "length seen + 1 < 2 ^ 64"
  shows "fst (operator_std_string inst str tables) =
           (if count_list seen (inst, str) = 0 then str
            else str @ ''_'' @ to_string (count_list seen (inst, str) + 1))"
    and "counts_match (snd (operator_std_string inst str tables)) (seen @ [(inst, str)])"
proof -
  let ?c = "count_list seen (inst, str)"
  have le: "?c \<le> length seen" by (rule count_list_le_length)
  then have small: "?c + 1 < 2 ^ 64" using assms(2) by simp
  have tab: "tables inst str = (if ?c = 0 then None else Some (of_nat ?c))"
    using assms(1) by (simp add: counts_match_def)
  show "fst (operator_std_string inst str tables) =
           (if ?c = 0 then str else str @ ''_'' @ to_string (?c + 1))"
    using tab unat_succ_count [OF small]
    by (simp add: operator_std_string_def RocSparseLt_TestName_to_string_def)
  show "counts_match (snd (operator_std_string inst str tables)) (seen @ [(inst, str)])"
    unfolding counts_match_def
  proof (intro allI)
    fix inst' str'
    show "snd (operator_std_string inst str tables) inst' str' =
       (if count_list (seen @ [(inst, str)]) (inst', str') = 0 then None
        else Some (of_nat (count_list (seen @ [(inst, str)]) (inst', str'))))"
    proof (cases "inst' = inst \<and> str' = str")
      case True
      then show ?thesis
        using tab by (simp add: operator_std_string_def RocSparseLt_TestName_to_string_def)
    next
      case False
      then have "snd (operator_std_string inst str tables) inst' str' = tables inst' str'"
        by (auto simp add: operator_std_string_def RocSparseLt_TestName_to_string_def
            split: option.splits)
      moreover have "count_list (seen @ [(inst, str)]) (inst', str') = count_list seen (inst', str')"
        using False by auto
      ultimately show ?thesis
        using assms(1) by (simp add: counts_match_def)
    qed
  qed
qed

lemma name_requests_counts:
  "counts_match tables seen \<Longrightarrow> length seen + length rs < 2 ^ 64 \<Longrightarrow>
   counts_match (snd (name_requests rs tables)) (seen @ rs)"
proof (induction rs arbitrary: tables seen)
  case Nil
  then show ?case by simp
next
  case (Cons r rs)
  obtain inst str where r: "r = (inst, str)" by (cases r)
  have small: "length seen + 1 < 2 ^ 64" using Cons.prems(2) by simp
  have step: "counts_match (snd (operator_std_string inst str tables)) (seen @ [(inst, str)])"
    using operator_std_string_step(2) [OF Cons.prems(1) small] .
  have "counts_match (snd (name_requests rs (snd (operator_std_string inst str tables))))
          ((seen @ [(inst, str)]) @ rs)"
    using Cons.IH [OF step] Cons.prems(2) by simp
  then show ?case
    by (simp only: r name_requests_Cons snd_conv append_Cons append_Nil append_assoc)
qed

lemma name_requests_nth:
  "counts_match tables seen \<Longrightarrow> length seen + length rs < 2 ^ 64 \<Longrightarrow> i < length rs \<Longrightarrow>
   fst (name_requests rs tables) ! i =
     (if count_list (seen @ take i rs) (rs ! i) = 0 then snd (rs ! i)
      else snd (rs ! i) @ ''_'' @ to_string (count_list (seen @ take i rs) (rs ! i) + 1))"
proof (induction rs arbitrary: tables seen i)
  case Nil
  then show ?case by simp
next
  case (Cons r rs)
  obtain inst str where r: "r = (inst, str)" by (cases r)
  have small: "length seen + 1 < 2 ^ 64" using Cons.prems(2) by simp
  note step = operator_std_string_step [OF Cons.prems(1) small, of inst str]
  show ?case
  proof (cases i)
    case 0
    then show ?thesis
      using step(1) by (simp add: r name_requests_Cons del: name_requests.simps)
  next
    case (Suc k)
    have "fst (name_requests rs (snd (operator_std_string inst str tables))) ! k =
      (if count_list ((seen @ [(inst, str)]) @ take k rs) (rs ! k) = 0 then snd (rs ! k)
       else snd (rs ! k) @ ''_'' @ to_string (count_list ((seen @ [(inst, str)]) @ take k rs) (rs ! k) + 1))"
      using Cons.IH [OF step(2), of k] Cons.prems(2,3) Suc by simp
    then show ?thesis
      by (simp add: r Suc name_requests_Cons del: name_requests.simps)
  qed
qed

lemma length_name_requests: "length (fst (name_requests rs tables)) = length rs"
proof (induction rs arbitrary: tables)
  case Nil
  show ?case by simp
next
  case (Cons r rs)
  obtain inst str where r: "r = (inst, str)" by (cases r)
  show ?case
    using Cons.IH by (simp only: r name_requests_Cons fst_conv list.size)
qed

lemma count_list_take_less:
  assumes "i < j" and "j \<le> length xs" and "xs ! i = x"
  shows "count_list (take i xs) x < count_list (take j xs) x"
proof -
  obtain k where "j = Suc (i + k)"
    using less_imp_Suc_add [OF assms(1)] by blast
  then have j: "j = i + Suc k" by simp
  have i_len: "i < length xs" using assms(1,2) by simp
  have d: "drop i xs = x # drop (Suc i) xs"
    unfolding assms(3) [symmetric] by (rule Cons_nth_drop_Suc [OF i_len, symmetric])
  have "take (i + Suc k) xs = take i xs @ take (Suc k) (drop i xs)"
    by (rule take_add)
  then have t: "take j xs = take i xs @ x # take k (drop (Suc i) xs)"
    by (simp only: j d take_Suc_Cons)
  show ?thesis by (simp only: t count_list_append count_list.simps) simp
qed

lemma suffixed_differs: "str @ ''_'' @ s \<noteq> str"
  by simp

text \<open>
  \<^bold>\<open>C6.\<close> In a run of fewer than \<open>2\<^sup>6\<^sup>4\<close> requests that starts with empty tables, take the
  request at position \<open>i\<close>, for the string \<open>str\<close> from the table of instantiation \<open>inst\<close>.
  If \<open>str\<close> was not requested from that table before, the builder returns \<open>str\<close> unchanged;
  if it was requested \<open>N - 1\<close> times before (\<open>N \<ge> 2\<close>), it returns \<open>str\<close> with \<open>_N\<close> appended.
  After the request the table stores the number of occurrences so far (1 after the first).
  Any other request for \<open>str\<close> from the same table gets a different result. If no earlier
  request came from this table, \<open>str\<close> is returned unchanged, whatever was requested from the
  other tables.
\<close>

theorem test_name_occurrences:
  fixes reqs :: "('inst \<times> string) list"
  assumes "length reqs < 2 ^ 64" and "i < length reqs" and "reqs ! i = (inst, str)"
  shows "fst (name_requests reqs (\<lambda>_. Map.empty)) ! i =
           (if count_list (take i reqs) (inst, str) = 0 then str
            else str @ ''_'' @ to_string (count_list (take i reqs) (inst, str) + 1))
       \<and> snd (name_requests (take (Suc i) reqs) (\<lambda>_. Map.empty)) inst str =
           Some (of_nat (count_list (take i reqs) (inst, str) + 1))
       \<and> (\<forall>j < length reqs. j \<noteq> i \<and> reqs ! j = (inst, str) \<longrightarrow>
             fst (name_requests reqs (\<lambda>_. Map.empty)) ! j
             \<noteq> fst (name_requests reqs (\<lambda>_. Map.empty)) ! i)
       \<and> ((\<forall>j < i. fst (reqs ! j) \<noteq> inst) \<longrightarrow>
             fst (name_requests reqs (\<lambda>_. Map.empty)) ! i = str)"
proof -
  let ?names = "fst (name_requests reqs (\<lambda>_. Map.empty))"
  let ?before = "\<lambda>k. count_list (take k reqs) (inst, str)"
  have nth: "?names ! k =
      (if ?before k = 0 then str else str @ ''_'' @ to_string (?before k + 1))"
    if "k < length reqs" and "reqs ! k = (inst, str)" for k
    using name_requests_nth [OF counts_match_empty, of reqs k] assms(1) that by simp
  have first: "?names ! i =
      (if ?before i = 0 then str else str @ ''_'' @ to_string (?before i + 1))"
    using nth [OF assms(2,3)] .
  have "counts_match (snd (name_requests (take (Suc i) reqs) (\<lambda>_. Map.empty)))
          ([] @ take (Suc i) reqs)"
    using assms(1) by (intro name_requests_counts [OF counts_match_empty]) simp
  moreover have "count_list (take (Suc i) reqs) (inst, str) = ?before i + 1"
    using assms(2,3) by (simp add: take_Suc_conv_app_nth)
  ultimately have stored: "snd (name_requests (take (Suc i) reqs) (\<lambda>_. Map.empty)) inst str =
      Some (of_nat (?before i + 1))"
    by (simp add: counts_match_def)
  have distinct: "?names ! j \<noteq> ?names ! i"
    if "j < length reqs" and "j \<noteq> i" and "reqs ! j = (inst, str)" for j
  proof -
    have ne: "?before j \<noteq> ?before i"
    proof (cases "i < j")
      case True
      then show ?thesis
        using count_list_take_less [of i j reqs "(inst, str)"] that(1) assms(3) by simp
    next
      case False
      then have "j < i" using that(2) by simp
      then show ?thesis
        using count_list_take_less [of j i reqs "(inst, str)"] assms(2) that(3) by simp
    qed
    have inj: "to_string (?before j + 1) \<noteq> to_string (?before i + 1)"
      using ne to_string_inject [of "?before j + 1" "?before i + 1"] by auto
    show ?thesis
    proof (cases "?before j = 0")
      case True
      then have "?before i \<noteq> 0" using ne by simp
      then show ?thesis
        using True nth [OF that(1,3)] first by (simp only: if_True if_False) simp
    next
      case j_pos: False
      show ?thesis
      proof (cases "?before i = 0")
        case True
        then show ?thesis
          using j_pos nth [OF that(1,3)] first by (simp only: if_True if_False) simp
      next
        case False
        then show ?thesis
          using j_pos nth [OF that(1,3)] first inj by (simp only: if_False) simp
      qed
    qed
  qed
  have other: "?names ! i = str" if "\<forall>j < i. fst (reqs ! j) \<noteq> inst"
  proof -
    have "(inst, str) \<notin> set (take i reqs)"
      using that assms(2) by (auto simp add: in_set_conv_nth)
    then have "?before i = 0" by (simp add: count_list_0_iff)
    then show ?thesis using first by simp
  qed
  show ?thesis
    using first stored distinct other by blast
qed

lemma to_string_2_3:
  "to_string 2 = ''2''" "to_string 3 = ''3''"
  "to_string (Suc (Suc 0)) = ''2''" "to_string (Suc (Suc (Suc 0))) = ''3''"
  by code_simp+

theorem test_name_occurrences_witness:
  "fst (name_requests example_requests (\<lambda>_. Map.empty)) ! 0 = ''gemm_f16''
   \<and> fst (name_requests example_requests (\<lambda>_. Map.empty)) ! 1 = ''gemm_f16_2''
   \<and> fst (name_requests example_requests (\<lambda>_. Map.empty)) ! 2 = ''gemm_f16''
   \<and> fst (name_requests example_requests (\<lambda>_. Map.empty)) ! 3 = ''gemm_f16_3''"
proof -
  have len: "length example_requests < 2 ^ 64" and l4: "length example_requests = 4"
    by (simp_all add: example_requests_def)
  have e0: "example_requests ! 0 = (0, ''gemm_f16'')"
    and e1: "example_requests ! 1 = (0, ''gemm_f16'')"
    and e2: "example_requests ! 2 = (1, ''gemm_f16'')"
    and e3: "example_requests ! 3 = (0, ''gemm_f16'')"
    by (simp_all add: example_requests_def RocSparseLt_TestName_def stream_out_def numeral_3_eq_3)
  have c0: "count_list (take 0 example_requests) (0, ''gemm_f16'') = 0"
    and c1: "count_list (take 1 example_requests) (0, ''gemm_f16'') = 1"
    and c2: "count_list (take 2 example_requests) (1, ''gemm_f16'') = 0"
    and c3: "count_list (take 3 example_requests) (0, ''gemm_f16'') = 2"
    by (simp_all add: example_requests_def RocSparseLt_TestName_def stream_out_def
        numeral_3_eq_3 numeral_2_eq_2)
  have "fst (name_requests example_requests (\<lambda>_. Map.empty)) ! 0 = ''gemm_f16''"
    using test_name_occurrences [OF len _ e0, THEN conjunct1, unfolded c0]
    by (simp add: l4)
  moreover have "fst (name_requests example_requests (\<lambda>_. Map.empty)) ! 1 = ''gemm_f16_2''"
    using test_name_occurrences [OF len _ e1, THEN conjunct1, unfolded c1]
    by (simp add: l4 to_string_2_3)
  moreover have "fst (name_requests example_requests (\<lambda>_. Map.empty)) ! 2 = ''gemm_f16''"
    using test_name_occurrences [OF len _ e2, THEN conjunct1, unfolded c2]
    by (simp add: l4)
  moreover have "fst (name_requests example_requests (\<lambda>_. Map.empty)) ! 3 = ''gemm_f16_3''"
    using test_name_occurrences [OF len _ e3, THEN conjunct1, unfolded c3]
    by (simp add: l4 to_string_2_3)
  ultimately show ?thesis by simp
qed

subsection \<open>The stream pool\<close>
















end
